theory Spec2Isabelle
  imports Main "HOL-Library.Sublist"
begin

section \<open>Data model\<close>

text \<open>
  The contacts API of \<^verbatim>\<open>main.py\<close>. The entities \<^verbatim>\<open>User\<close> and \<^verbatim>\<open>Contact\<close> are rows of
  the two tables; the SQLAlchemy session \<^verbatim>\<open>db\<close> is the pair of tables, each a list of rows
  in storage order. A handler that raises \<^verbatim>\<open>HTTPException\<close> returns it on the left of a
  sum; a handler that writes returns the session it leaves behind.
\<close>

type_synonym datetime = int  \<comment> \<open>microseconds since the epoch\<close>
type_synonym date = int      \<comment> \<open>days since the epoch\<close>

datatype hashed = Bcrypt nat string
  \<comment> \<open>a bcrypt hash, symbolically: the salt and the password it was made from\<close>

text \<open>
  Modelled from the spec: \<^verbatim>\<open>models.py\<close> (the columns of \<^verbatim>\<open>User\<close> and \<^verbatim>\<open>Contact\<close>) is not
  among the sources. The spec: "User: id (unique), username (unique), hashed password";
  "Contact: id, first_name, last_name, email, birthday, owning user_id". The fields are
  those \<^verbatim>\<open>main.py\<close> reads; ids are integers, names are strings, a birthday is a date.
\<close>

record user =
  id_user :: int
  username :: string
  password :: hashed

record contact =
  id_contact :: int
  first_name :: string
  last_name :: string
  email :: string
  birthday :: date
  user_id :: int

record session =
  users :: "user list"
  contacts :: "contact list"

record http_exception =
  status_code :: nat
  detail :: string
  headers :: "(string \<times> string) list"

definition HTTPException :: "nat \<Rightarrow> string \<Rightarrow> http_exception" where
  "HTTPException code msg = \<lparr>status_code = code, detail = msg, headers = []\<rparr>"

text \<open>
  A handler that calls into SQLAlchemy or passlib can also end in an exception that is
  not an \<^verbatim>\<open>HTTPException\<close>; nothing in \<^verbatim>\<open>main.py\<close> catches one.
\<close>

datatype py_exception = ArgumentError | NullPasswordError

datatype raised = Raised http_exception | Unhandled py_exception

text \<open>
  Modelled from the spec: \<^verbatim>\<open>schemas.py\<close> is not among the sources. The spec keeps the
  "data-transfer schemas", which "validate and shape request/response payloads", apart
  from the persistence layer, which "maps entities (User, Contact) to relational storage".
  Two classes are called \<^verbatim>\<open>Contact\<close>: the schema and the mapped entity. Line 6,
  \<^verbatim>\<open>from schemas import Contact, ContactCreate\<close>, binds the name \<^verbatim>\<open>Contact\<close> in \<^verbatim>\<open>main.py\<close> to
  the schema, the class the routes give as \<^verbatim>\<open>response_model\<close>; the entity is never imported
  by name. \<^verbatim>\<open>db.query\<close> hands out the rows of a mapped entity and raises \<^verbatim>\<open>ArgumentError\<close>
  for a class that is not mapped.
\<close>

datatype py_class = Schemas_Contact | Models_Contact

definition Contact :: py_class where
  "Contact = Schemas_Contact"

definition db_query :: "session \<Rightarrow> py_class \<Rightarrow> raised + contact list" where
  "db_query db entity =
     (case entity of
        Models_Contact \<Rightarrow> Inr (contacts db)
      | Schemas_Contact \<Rightarrow> Inl (Unhandled ArgumentError))"

section \<open>Routing\<close>

text \<open>
  The route table is what the decorators of \<^verbatim>\<open>main.py\<close> build, in the order of the file.
  \<^verbatim>\<open>app = FastAPI()\<close> starts with the four documentation routes of the framework;
  \<^verbatim>\<open>@app.get\<close>, \<^verbatim>\<open>@app.post\<close> and \<^verbatim>\<open>@app.delete\<close> append to the application, and
  \<^verbatim>\<open>@router.post\<close> appends to the separate \<^verbatim>\<open>APIRouter\<close> object. The file never calls
  \<^verbatim>\<open>app.include_router\<close>, and \<^verbatim>\<open>update_contact\<close> carries no decorator.
\<close>

datatype http_method = GET | HEAD | POST | PUT | PATCH | DELETE | OPTIONS

datatype handler =
    Openapi | Swagger_ui_html | Swagger_ui_redirect | Redoc_html
  | Read_root | Create_contact | Read_contact | Update_contact | Delete_contact
  | Search_contacts | Get_upcoming_birthdays
  | Register_user | Login_user | Refresh_access_token

datatype segment = Lit string | Param string

record route =
  methods :: "http_method list"
  path :: string
  endpoint :: handler

definition app_routes :: "route list" where
  "app_routes =
    [\<lparr>methods = [GET, HEAD], path = ''/openapi.json'', endpoint = Openapi\<rparr>,
     \<lparr>methods = [GET, HEAD], path = ''/docs'', endpoint = Swagger_ui_html\<rparr>,
     \<lparr>methods = [GET, HEAD], path = ''/docs/oauth2-redirect'', endpoint = Swagger_ui_redirect\<rparr>,
     \<lparr>methods = [GET, HEAD], path = ''/redoc'', endpoint = Redoc_html\<rparr>,
     \<lparr>methods = [GET], path = ''/'', endpoint = Read_root\<rparr>,
     \<lparr>methods = [POST], path = ''/contacts/'', endpoint = Create_contact\<rparr>,
     \<lparr>methods = [GET], path = ''/contacts/{contact_id}'', endpoint = Read_contact\<rparr>,
     \<lparr>methods = [DELETE], path = ''/contacts/{contact_id}'', endpoint = Delete_contact\<rparr>,
     \<lparr>methods = [GET], path = ''/contacts/search'', endpoint = Search_contacts\<rparr>,
     \<lparr>methods = [GET], path = ''/contacts/upcoming-birthdays'',
        endpoint = Get_upcoming_birthdays\<rparr>]"

definition router_routes :: "route list" where
  "router_routes =
    [\<lparr>methods = [POST], path = ''/register'', endpoint = Register_user\<rparr>,
     \<lparr>methods = [POST], path = ''/login'', endpoint = Login_user\<rparr>,
     \<lparr>methods = [POST], path = ''/refresh'', endpoint = Refresh_access_token\<rparr>]"

text \<open>
  A path template is compiled segment by segment: \<^verbatim>\<open>{name}\<close> becomes a parameter that
  matches one non-empty segment without a slash (the convertor \<^verbatim>\<open>str\<close>, whatever the
  annotation of the handler's argument), anything else matches itself.
\<close>

fun split_on :: "char \<Rightarrow> string \<Rightarrow> string list" where
  "split_on c [] = [[]]"
| "split_on c (x # xs) =
     (if x = c then [] # split_on c xs
      else (case split_on c xs of [] \<Rightarrow> [[x]] | w # ws \<Rightarrow> (x # w) # ws))"

definition compile_segment :: "string \<Rightarrow> segment" where
  "compile_segment s =
     (if 2 \<le> length s \<and> hd s = CHR ''{'' \<and> last s = CHR ''}''
      then Param (butlast (tl s)) else Lit s)"

definition compile_path :: "string \<Rightarrow> segment list" where
  "compile_path p = map compile_segment (split_on CHR ''/'' p)"

fun match_segments :: "segment list \<Rightarrow> string list \<Rightarrow> (string \<times> string) list option" where
  "match_segments [] [] = Some []"
| "match_segments (Lit l # ps) (s # ss) =
     (if l = s then match_segments ps ss else None)"
| "match_segments (Param n # ps) (s # ss) =
     (if s = [] then None else map_option ((#) (n, s)) (match_segments ps ss))"
| "match_segments _ _ = None"

datatype match = NONE | PARTIAL | FULL "(string \<times> string) list"

definition matches :: "route \<Rightarrow> http_method \<Rightarrow> string \<Rightarrow> match" where
  "matches r m p =
     (case match_segments (compile_path (path r)) (split_on CHR ''/'' p) of
        None \<Rightarrow> NONE
      | Some params \<Rightarrow> if m \<in> set (methods r) then FULL params else PARTIAL)"

text \<open>
  The router tries the routes in order. The first full match is called; with no full
  match a route that matched the path alone answers 405; otherwise a path that matches
  some route once its trailing slash is added or removed is redirected, and everything
  else is 404.
\<close>

datatype resolution =
    Call handler "(string \<times> string) list"
  | Method_not_allowed
  | Redirect string
  | Not_found

fun first_full :: "route list \<Rightarrow> http_method \<Rightarrow> string \<Rightarrow> resolution option" where
  "first_full [] m p = None"
| "first_full (r # rs) m p =
     (case matches r m p of
        FULL params \<Rightarrow> Some (Call (endpoint r) params)
      | _ \<Rightarrow> first_full rs m p)"

definition rstrip :: "char \<Rightarrow> string \<Rightarrow> string" where
  "rstrip c s = rev (dropWhile (\<lambda>x. x = c) (rev s))"

definition toggle_slash :: "string \<Rightarrow> string" where
  "toggle_slash p =
     (if p \<noteq> [] \<and> last p = CHR ''/'' then rstrip CHR ''/'' p else p @ ''/'')"

definition resolve :: "route list \<Rightarrow> http_method \<Rightarrow> string \<Rightarrow> resolution" where
  "resolve rs m p =
     (case first_full rs m p of
        Some r \<Rightarrow> r
      | None \<Rightarrow>
          if list_ex (\<lambda>r. matches r m p \<noteq> NONE) rs then Method_not_allowed
          else if p \<noteq> ''/'' \<and> list_ex (\<lambda>r. matches r m (toggle_slash p) \<noteq> NONE) rs
          then Redirect (toggle_slash p)
          else Not_found)"

text \<open>
  A path parameter annotated \<^verbatim>\<open>int\<close> is validated after the route is chosen: a segment
  that is not a decimal integer is answered 422 and the handler's body does not run.
\<close>

definition digit_val :: "char \<Rightarrow> nat option" where
  "digit_val c =
     (let n = (of_char c :: nat) in if 48 \<le> n \<and> n \<le> 57 then Some (n - 48) else None)"

fun parse_nat :: "nat \<Rightarrow> string \<Rightarrow> nat option" where
  "parse_nat acc [] = Some acc"
| "parse_nat acc (c # cs) =
     (case digit_val c of None \<Rightarrow> None | Some d \<Rightarrow> parse_nat (10 * acc + d) cs)"

definition parse_int :: "string \<Rightarrow> int option" where
  "parse_int s =
     (case s of
        [] \<Rightarrow> None
      | c # cs \<Rightarrow>
          if c = CHR ''-'' then (if cs = [] then None else map_option (\<lambda>n. - int n) (parse_nat 0 cs))
          else if c = CHR ''+'' then (if cs = [] then None else map_option int (parse_nat 0 cs))
          else map_option int (parse_nat 0 s))"

definition validate_contact_id :: "(string \<times> string) list \<Rightarrow> http_exception + int" where
  "validate_contact_id params =
     (case map_of params ''contact_id'' of
        None \<Rightarrow> Inl (HTTPException 422 ''Field required'')
      | Some s \<Rightarrow>
          (case parse_int s of
             None \<Rightarrow> Inl (HTTPException 422 ''Input should be a valid integer'')
           | Some i \<Rightarrow> Inr i))"

section \<open>Passwords and tokens\<close>


fun verify_password :: "string \<Rightarrow> hashed \<Rightarrow> bool" where
  "verify_password plain_password (Bcrypt salt pw) = (pw = take 72 plain_password)"

text \<open>
  Modelled from the spec: \<^verbatim>\<open>auth.py\<close> (\<^verbatim>\<open>create_access_token\<close>, \<^verbatim>\<open>create_refresh_token\<close>,
  \<^verbatim>\<open>verify_token\<close>) is not among the sources. The spec: tokens are "signed, expiring,
  carrying a subject claim"; token validation is "a pure function: given a signed token
  string, decode and verify signature and expiry; on any failure, signal an authentication
  error; on success, return the embedded subject identifier". The signature is symbolic:
  the key and the payload it was computed over, so a token whose payload was altered, or
  that was signed with another key, does not verify.
\<close>

datatype signature = Sign nat string datetime

record token =
  token_sub :: string
  token_exp :: datetime
  token_sig :: signature

definition timedelta_minutes :: "int \<Rightarrow> int" where
  "timedelta_minutes n = n * 60000000"

definition timedelta_days :: "int \<Rightarrow> int" where
  "timedelta_days n = n * 86400000000"

definition create_access_token :: "nat \<Rightarrow> datetime \<Rightarrow> string \<Rightarrow> int \<Rightarrow> token" where
  "create_access_token key now subject expires_delta =
     \<lparr>token_sub = subject, token_exp = now + expires_delta,
      token_sig = Sign key subject (now + expires_delta)\<rparr>"

definition create_refresh_token :: "nat \<Rightarrow> datetime \<Rightarrow> int \<Rightarrow> string \<Rightarrow> token" where
  "create_refresh_token key now lifetime subject =
     \<lparr>token_sub = subject, token_exp = now + lifetime,
      token_sig = Sign key subject (now + lifetime)\<rparr>"

definition signature_valid :: "nat \<Rightarrow> token \<Rightarrow> bool" where
  "signature_valid key t = (token_sig t = Sign key (token_sub t) (token_exp t))"

definition expired :: "datetime \<Rightarrow> token \<Rightarrow> bool" where
  "expired now t = (token_exp t < now)"

definition verify_token :: "nat \<Rightarrow> datetime \<Rightarrow> token \<Rightarrow> http_exception \<Rightarrow> http_exception + string" where
  "verify_token key now t credentials_exception =
     (if signature_valid key t \<and> \<not> expired now t then Inr (token_sub t)
      else Inl credentials_exception)"

section \<open>Handlers\<close>

text \<open>
  Modelled from the spec: \<^verbatim>\<open>crud.py\<close> (\<^verbatim>\<open>get_contact\<close>, \<^verbatim>\<open>delete_contact\<close>) is not among the
  sources. The spec: a contact is "read/updated/deleted by id"; \<^verbatim>\<open>DELETE /contacts/{id}\<close>
  "deletes by id; 404 if missing". The lookup is the first row with the id, and the
  deletion removes the rows with the id and returns the row found, or \<^verbatim>\<open>None\<close>.
\<close>

definition get_contact :: "session \<Rightarrow> int \<Rightarrow> contact option" where
  "get_contact db contact_id = find (\<lambda>c. id_contact c = contact_id) (contacts db)"

definition crud_delete_contact :: "session \<Rightarrow> int \<Rightarrow> contact option \<times> session" where
  "crud_delete_contact db contact_id =
     (case find (\<lambda>c. id_contact c = contact_id) (contacts db) of
        None \<Rightarrow> (None, db)
      | Some c \<Rightarrow>
          (Some c, db\<lparr>contacts := filter (\<lambda>c. id_contact c \<noteq> contact_id) (contacts db)\<rparr>))"

definition read_contact ::
  "int \<Rightarrow> session \<Rightarrow> user \<Rightarrow> (http_exception + contact) \<times> session" where
  "read_contact contact_id db current_user =
     (case get_contact db contact_id of
        None \<Rightarrow> (Inl (HTTPException 404 ''Contact not found''), db)
      | Some db_contact \<Rightarrow>
          if user_id db_contact \<noteq> id_user current_user
          then (Inl (HTTPException 404 ''Contact not found''), db)
          else (Inr db_contact, db))"

definition delete_contact :: "int \<Rightarrow> session \<Rightarrow> (http_exception + contact) \<times> session" where
  "delete_contact contact_id db =
     (case crud_delete_contact db contact_id of
        (None, db') \<Rightarrow> (Inl (HTTPException 404 ''Contact not found''), db')
      | (Some db_contact, db') \<Rightarrow> (Inr db_contact, db'))"

subsection \<open>Search\<close>

text \<open>
  \<^verbatim>\<open>ilike\<close> is the case-insensitive \<^verbatim>\<open>LIKE\<close> of the database behind the session, which the
  sources do not fix; the model takes it as an argument, applied to the column value and
  the pattern. The handler builds the pattern by putting the query parameter between two
  \<^verbatim>\<open>%\<close>, after it has asked the session for \<^verbatim>\<open>Contact\<close>.
\<close>

definition truthy :: "string option \<Rightarrow> bool" where
  "truthy v = (case v of None \<Rightarrow> False | Some s \<Rightarrow> s \<noteq> [])"

definition search_contacts ::
  "(string \<Rightarrow> string \<Rightarrow> bool) \<Rightarrow> string option \<Rightarrow> string option \<Rightarrow> string option \<Rightarrow>
   session \<Rightarrow> raised + contact list" where
  "search_contacts ilike name surname email' db =
     (case db_query db Contact of
        Inl e \<Rightarrow> Inl e
      | Inr query \<Rightarrow>
          (let query = (if truthy name
                        then filter (\<lambda>c. ilike (first_name c) (''%'' @ the name @ ''%'')) query
                        else query);
               query = (if truthy surname
                        then filter (\<lambda>c. ilike (last_name c) (''%'' @ the surname @ ''%'')) query
                        else query);
               query = (if truthy email'
                        then filter (\<lambda>c. ilike (email c) (''%'' @ the email' @ ''%'')) query
                        else query);
               results = query
           in if results = [] then Inl (Raised (HTTPException 404 ''Contacts not found''))
              else Inr results))"

text \<open>
  The search as the specification words it: a case-insensitive substring match on first
  name, last name and email, conjoined over the filters provided, 404 on an empty result.
\<close>

definition lower :: "char \<Rightarrow> char" where
  "lower c =
     (let n = (of_char c :: nat) in if 65 \<le> n \<and> n \<le> 90 then char_of (n + 32) else c)"

definition substring_ci :: "string \<Rightarrow> string \<Rightarrow> bool" where
  "substring_ci needle s = sublist (map lower needle) (map lower s)"

definition provided :: "string option \<Rightarrow> (contact \<Rightarrow> string) \<Rightarrow> contact \<Rightarrow> bool" where
  "provided v field c = (case v of None \<Rightarrow> True | Some s \<Rightarrow> substring_ci s (field c))"

definition search_spec ::
  "string option \<Rightarrow> string option \<Rightarrow> string option \<Rightarrow> session \<Rightarrow> http_exception + contact list" where
  "search_spec name surname email' db =
     (let results = filter (\<lambda>c. provided name first_name c \<and> provided surname last_name c \<and>
                                 provided email' email c) (contacts db)
      in if results = [] then Inl (HTTPException 404 ''Contacts not found'') else Inr results)"

subsection \<open>Upcoming birthdays\<close>

text \<open>
  \<^verbatim>\<open>datetime.today()\<close> is the current local date and time, read from the clock; the model
  takes it as an argument. How \<^verbatim>\<open>between\<close> compares the birthday column with the two
  datetime bounds depends on the column type and the database, which the sources do not
  fix; the model takes the comparison as an argument, applied to the birthday and the
  bounds. The handler filters after it has asked the session for \<^verbatim>\<open>Contact\<close>.
\<close>

definition date_of :: "datetime \<Rightarrow> date" where
  "date_of t = t div 86400000000"

definition get_upcoming_birthdays ::
  "(date \<Rightarrow> datetime \<Rightarrow> datetime \<Rightarrow> bool) \<Rightarrow> datetime \<Rightarrow> session \<Rightarrow> raised + contact list" where
  "get_upcoming_birthdays between datetime_today db =
     (let today = datetime_today;
          upcoming = today + timedelta_days 7
      in case db_query db Contact of
           Inl e \<Rightarrow> Inl e
         | Inr query \<Rightarrow>
             (let contacts' = filter (\<lambda>c. between (birthday c) today upcoming) query
              in if contacts' = []
                 then Inl (Raised (HTTPException 404 ''No upcoming birthdays found''))
                 else Inr contacts'))"

text \<open>
  The same query as the specification words it: the contacts whose birthday falls within
  the next 7 days, inclusive of today.
\<close>

definition upcoming_spec :: "datetime \<Rightarrow> session \<Rightarrow> http_exception + contact list" where
  "upcoming_spec datetime_today db =
     (let today = date_of datetime_today;
          contacts' = filter (\<lambda>c. today \<le> birthday c \<and> birthday c \<le> today + 7) (contacts db)
      in if contacts' = [] then Inl (HTTPException 404 ''No upcoming birthdays found'')
         else Inr contacts')"

subsection \<open>Authentication\<close>

definition credentials_exception :: http_exception where
  "credentials_exception =
     \<lparr>status_code = 401, detail = ''Could not validate credentials'',
      headers = [(''WWW-Authenticate'', ''Bearer'')]\<rparr>"

definition get_current_user :: "nat \<Rightarrow> datetime \<Rightarrow> token \<Rightarrow> session \<Rightarrow> http_exception + user" where
  "get_current_user key now t db =
     (case verify_token key now t credentials_exception of
        Inl e \<Rightarrow> Inl e
      | Inr user_id' \<Rightarrow>
          (case find (\<lambda>u. username u = user_id') (users db) of
             None \<Rightarrow> Inl credentials_exception
           | Some u \<Rightarrow> Inr u))"



text \<open>\<^verbatim>\<open>str\<close> of a Python integer: its decimal digits, with a minus sign below zero.\<close>

definition digit_char :: "nat \<Rightarrow> char" where
  "digit_char d = char_of (48 + d)"

function str_nat :: "nat \<Rightarrow> string" where
  "str_nat n = (if n < 10 then [digit_char n] else str_nat (n div 10) @ [digit_char (n mod 10)])"
  by pat_completeness auto
termination
  by (relation "measure id") auto

definition str :: "int \<Rightarrow> string" where
  "str i = (if i < 0 then CHR ''-'' # str_nat (nat (- i)) else str_nat (nat i))"

record login_response =
  access_token :: token
  refresh_token :: token
  token_type :: string

definition login_user ::
  "nat \<Rightarrow> datetime \<Rightarrow> int \<Rightarrow> string \<Rightarrow> string \<Rightarrow> session \<Rightarrow> http_exception + login_response" where
  "login_user key now refresh_lifetime form_username form_password db =
     (case find (\<lambda>u. username u = form_username) (users db) of
        None \<Rightarrow> Inl (HTTPException 401 ''Invalid credentials'')
      | Some u \<Rightarrow>
          if \<not> verify_password form_password (password u)
          then Inl (HTTPException 401 ''Invalid credentials'')
          else Inr \<lparr>access_token =
                      create_access_token key now (str (id_user u)) (timedelta_minutes 30),
                    refresh_token = create_refresh_token key now refresh_lifetime (str (id_user u)),
                    token_type = ''bearer''\<rparr>)"

section \<open>Route resolution\<close>

lemma compile_paths:
  "compile_path ''/openapi.json'' = [Lit [], Lit ''openapi.json'']"
  "compile_path ''/docs'' = [Lit [], Lit ''docs'']"
  "compile_path ''/docs/oauth2-redirect'' = [Lit [], Lit ''docs'', Lit ''oauth2-redirect'']"
  "compile_path ''/redoc'' = [Lit [], Lit ''redoc'']"
  "compile_path ''/'' = [Lit [], Lit []]"
  "compile_path ''/contacts/'' = [Lit [], Lit ''contacts'', Lit []]"
  "compile_path ''/contacts/{contact_id}'' = [Lit [], Lit ''contacts'', Param ''contact_id'']"
  "compile_path ''/contacts/search'' = [Lit [], Lit ''contacts'', Lit ''search'']"
  "compile_path ''/contacts/upcoming-birthdays'' =
     [Lit [], Lit ''contacts'', Lit ''upcoming-birthdays'']"
  by (simp_all add: compile_path_def compile_segment_def)

lemma first_full_Some:
  "first_full rs m p = Some x \<Longrightarrow>
   \<exists>r\<in>set rs. \<exists>ps. matches r m p = FULL ps \<and> x = Call (endpoint r) ps"
  by (induction rs) (auto split: match.splits)

lemma resolve_first_full:
  "resolve rs m p = Call h ps \<Longrightarrow> first_full rs m p = Some (Call h ps)"
  by (auto simp: resolve_def split: option.splits if_splits dest: first_full_Some)

lemma resolve_Call:
  assumes "resolve rs m p = Call h ps"
  shows "\<exists>r\<in>set rs. endpoint r = h \<and> matches r m p = FULL ps"
  using first_full_Some[OF resolve_first_full[OF assms]] by auto

lemma matches_FULL_method: "matches r m p = FULL ps \<Longrightarrow> m \<in> set (methods r)"
  by (auto simp: matches_def split: option.splits if_splits)

lemma first_full_prefix:
  "first_full (rs @ rs') m p = Some (Call h ps) \<Longrightarrow> \<forall>r\<in>set rs. endpoint r \<noteq> h \<Longrightarrow>
   r \<in> set rs \<Longrightarrow> matches r m p \<noteq> FULL qs"
  by (induction rs) (auto split: match.splits)

lemma match_lits: "match_segments (map Lit ls) xs = Some ps \<Longrightarrow> xs = ls"
proof (induction ls arbitrary: xs)
  case Nil
  then show ?case by (cases xs) auto
next
  case (Cons l ls)
  then show ?case by (cases xs) (auto split: if_splits)
qed

text \<open>
  A request that fully matches a \<^verbatim>\<open>GET\<close> route with the literal path \<^verbatim>\<open>/contacts/s\<close> also
  fully matches \<^verbatim>\<open>GET /contacts/{contact_id}\<close>, with \<^verbatim>\<open>s\<close> as the parameter.
\<close>

lemma literal_shadowed:
  assumes "matches \<lparr>methods = [GET], path = pth, endpoint = h\<rparr> m p = FULL ps"
    and "compile_path pth = [Lit [], Lit ''contacts'', Lit s]"
    and "s \<noteq> []"
  shows "matches \<lparr>methods = [GET], path = ''/contacts/{contact_id}'', endpoint = Read_contact\<rparr>
           m p = FULL [(''contact_id'', s)]"
proof -
  from assms(1,2) obtain qs where
    ms: "match_segments (map Lit [[], ''contacts'', s]) (split_on CHR ''/'' p) = Some qs"
    and m: "m = GET"
    by (auto simp: matches_def split: option.splits if_splits)
  from match_lits[OF ms] have "split_on CHR ''/'' p = [[], ''contacts'', s]" .
  with m assms(3) show ?thesis
    by (simp add: matches_def compile_paths)
qed

lemma app_routes_split:
  "app_routes =
    [\<lparr>methods = [GET, HEAD], path = ''/openapi.json'', endpoint = Openapi\<rparr>,
     \<lparr>methods = [GET, HEAD], path = ''/docs'', endpoint = Swagger_ui_html\<rparr>,
     \<lparr>methods = [GET, HEAD], path = ''/docs/oauth2-redirect'', endpoint = Swagger_ui_redirect\<rparr>,
     \<lparr>methods = [GET, HEAD], path = ''/redoc'', endpoint = Redoc_html\<rparr>,
     \<lparr>methods = [GET], path = ''/'', endpoint = Read_root\<rparr>,
     \<lparr>methods = [POST], path = ''/contacts/'', endpoint = Create_contact\<rparr>,
     \<lparr>methods = [GET], path = ''/contacts/{contact_id}'', endpoint = Read_contact\<rparr>,
     \<lparr>methods = [DELETE], path = ''/contacts/{contact_id}'', endpoint = Delete_contact\<rparr>] @
    [\<lparr>methods = [GET], path = ''/contacts/search'', endpoint = Search_contacts\<rparr>,
     \<lparr>methods = [GET], path = ''/contacts/upcoming-birthdays'',
        endpoint = Get_upcoming_birthdays\<rparr>]"
  by (simp add: app_routes_def)

lemma search_never_called: "resolve app_routes m p \<noteq> Call Search_contacts ps"
proof
  assume a: "resolve app_routes m p = Call Search_contacts ps"
  from resolve_Call[OF a] have
    "matches \<lparr>methods = [GET], path = ''/contacts/search'', endpoint = Search_contacts\<rparr> m p =
       FULL ps"
    by (auto simp: app_routes_def)
  then have full:
    "matches \<lparr>methods = [GET], path = ''/contacts/{contact_id}'', endpoint = Read_contact\<rparr>
       m p = FULL [(''contact_id'', ''search'')]"
    by (rule literal_shadowed) (simp_all add: compile_paths)
  have "matches \<lparr>methods = [GET], path = ''/contacts/{contact_id}'', endpoint = Read_contact\<rparr>
       m p \<noteq> FULL [(''contact_id'', ''search'')]"
    by (rule first_full_prefix[OF resolve_first_full[OF a, unfolded app_routes_split]]) simp_all
  with full show False by simp
qed

lemma birthdays_never_called: "resolve app_routes m p \<noteq> Call Get_upcoming_birthdays ps"
proof
  assume a: "resolve app_routes m p = Call Get_upcoming_birthdays ps"
  from resolve_Call[OF a] have
    "matches \<lparr>methods = [GET], path = ''/contacts/upcoming-birthdays'',
        endpoint = Get_upcoming_birthdays\<rparr> m p = FULL ps"
    by (auto simp: app_routes_def)
  then have full:
    "matches \<lparr>methods = [GET], path = ''/contacts/{contact_id}'', endpoint = Read_contact\<rparr>
       m p = FULL [(''contact_id'', ''upcoming-birthdays'')]"
    by (rule literal_shadowed) (simp_all add: compile_paths)
  have "matches \<lparr>methods = [GET], path = ''/contacts/{contact_id}'', endpoint = Read_contact\<rparr>
       m p \<noteq> FULL [(''contact_id'', ''upcoming-birthdays'')]"
    by (rule first_full_prefix[OF resolve_first_full[OF a, unfolded app_routes_split]]) simp_all
  with full show False by simp
qed

lemma resolve_put_contact: "resolve app_routes PUT ''/contacts/5'' = Method_not_allowed"
  by code_simp

lemma resolve_patch_contact: "resolve app_routes PATCH ''/contacts/5'' = Method_not_allowed"
  by code_simp

lemma resolve_register: "resolve app_routes POST ''/register'' = Not_found"
  by code_simp

lemma resolve_login: "resolve app_routes POST ''/login'' = Not_found"
  by code_simp

lemma resolve_refresh: "resolve app_routes POST ''/refresh'' = Not_found"
  by code_simp

lemma resolve_search:
  "resolve app_routes GET ''/contacts/search'' = Call Read_contact [(''contact_id'', ''search'')]"
  by code_simp

lemma resolve_birthdays:
  "resolve app_routes GET ''/contacts/upcoming-birthdays'' =
     Call Read_contact [(''contact_id'', ''upcoming-birthdays'')]"
  by code_simp

lemma validate_search:
  "validate_contact_id [(''contact_id'', ''search'')] =
     Inl (HTTPException 422 ''Input should be a valid integer'')"
  by code_simp

lemma validate_birthdays:
  "validate_contact_id [(''contact_id'', ''upcoming-birthdays'')] =
     Inl (HTTPException 422 ''Input should be a valid integer'')"
  by code_simp

text \<open>
  C4. \<^verbatim>\<open>update_contact\<close> is the endpoint of no route, neither of the application nor of the
  router, so no request resolves to it; a \<^verbatim>\<open>PUT\<close> or \<^verbatim>\<open>PATCH\<close> request resolves to no
  handler at all, whatever its path.
\<close>

theorem update_contact_unrouted:
  "Update_contact \<notin> set (map endpoint (app_routes @ router_routes)) \<and>
   resolve app_routes m p \<noteq> Call Update_contact ps \<and>
   (m = PUT \<or> m = PATCH \<longrightarrow> resolve app_routes m p \<noteq> Call h ps)"
proof -
  have 1: "Update_contact \<notin> set (map endpoint (app_routes @ router_routes))"
    by (simp add: app_routes_def router_routes_def)
  have 2: "resolve app_routes m p \<noteq> Call Update_contact ps"
    using resolve_Call[of app_routes m p Update_contact ps] by (auto simp: app_routes_def)
  have 3: "resolve app_routes m p \<noteq> Call h ps" if "m = PUT \<or> m = PATCH"
  proof
    assume "resolve app_routes m p = Call h ps"
    from resolve_Call[OF this] obtain r where "r \<in> set app_routes" "m \<in> set (methods r)"
      using matches_FULL_method by blast
    with that show False by (auto simp: app_routes_def)
  qed
  from 1 2 3 show ?thesis by blast
qed

theorem update_contact_unrouted_witness:
  "resolve app_routes PUT ''/contacts/5'' \<noteq> Call Update_contact [(''contact_id'', ''5'')] \<and>
   resolve app_routes PUT ''/contacts/5'' \<noteq> Call Read_contact [(''contact_id'', ''5'')] \<and>
   resolve app_routes PUT ''/contacts/5'' = Method_not_allowed"
  using update_contact_unrouted[of PUT "''/contacts/5''" "[(''contact_id'', ''5'')]" Read_contact]
    resolve_put_contact
  by simp

text \<open>
  C9. The routes of \<^verbatim>\<open>register_user\<close>, \<^verbatim>\<open>login_user\<close> and \<^verbatim>\<open>refresh_access_token\<close> belong to
  the router, which the application never includes: no request to the application
  resolves to one of these handlers, and \<^verbatim>\<open>POST /register\<close>, \<^verbatim>\<open>POST /login\<close> and
  \<^verbatim>\<open>POST /refresh\<close> are answered 404.
\<close>

theorem router_not_included:
  "(h \<in> set (map endpoint router_routes) \<longrightarrow> resolve app_routes m p \<noteq> Call h ps) \<and>
   set (map endpoint router_routes) = {Register_user, Login_user, Refresh_access_token} \<and>
   resolve app_routes POST ''/register'' = Not_found \<and>
   resolve app_routes POST ''/login'' = Not_found \<and>
   resolve app_routes POST ''/refresh'' = Not_found"
proof -
  have "resolve app_routes m p \<noteq> Call h ps" if "h \<in> set (map endpoint router_routes)"
  proof
    assume "resolve app_routes m p = Call h ps"
    from resolve_Call[OF this] have "h \<in> set (map endpoint app_routes)" by auto
    with that show False by (auto simp: app_routes_def router_routes_def)
  qed
  moreover have "set (map endpoint router_routes) =
      {Register_user, Login_user, Refresh_access_token}"
    by (simp add: router_routes_def)
  ultimately show ?thesis
    using resolve_register resolve_login resolve_refresh by blast
qed

theorem router_not_included_witness:
  "Login_user \<in> set (map endpoint router_routes) \<and>
   resolve app_routes POST ''/login'' \<noteq> Call Login_user []"
  using router_not_included[of Login_user POST "''/login''" "[]"]
  by (simp add: router_routes_def)

text \<open>
  C10. \<^verbatim>\<open>GET /contacts/{contact_id}\<close> is declared before \<^verbatim>\<open>GET /contacts/search\<close> and
  \<^verbatim>\<open>GET /contacts/upcoming-birthdays\<close>: a request to either path resolves to
  \<^verbatim>\<open>read_contact\<close> with the last segment as \<^verbatim>\<open>contact_id\<close>, which fails the integer
  validation (422), and no request at all resolves to \<^verbatim>\<open>search_contacts\<close> or to
  \<^verbatim>\<open>get_upcoming_birthdays\<close>.
\<close>

theorem search_and_birthdays_shadowed:
  "resolve app_routes GET ''/contacts/search'' =
     Call Read_contact [(''contact_id'', ''search'')] \<and>
   validate_contact_id [(''contact_id'', ''search'')] =
     Inl (HTTPException 422 ''Input should be a valid integer'') \<and>
   resolve app_routes GET ''/contacts/upcoming-birthdays'' =
     Call Read_contact [(''contact_id'', ''upcoming-birthdays'')] \<and>
   validate_contact_id [(''contact_id'', ''upcoming-birthdays'')] =
     Inl (HTTPException 422 ''Input should be a valid integer'') \<and>
   resolve app_routes m p \<noteq> Call Search_contacts ps \<and>
   resolve app_routes m p \<noteq> Call Get_upcoming_birthdays ps"
  using resolve_search validate_search resolve_birthdays validate_birthdays
    search_never_called birthdays_never_called
  by simp

section \<open>Contacts by id\<close>

lemma find_None_key: "find (\<lambda>c. f c = k) xs = None \<longleftrightarrow> (\<forall>c\<in>set xs. f c \<noteq> k)"
  by (auto simp: find_None_iff)

lemma find_Some_key: "find (\<lambda>c. f c = k) xs = Some c \<Longrightarrow> c \<in> set xs \<and> f c = k"
  by (auto simp: find_Some_iff)

lemma find_distinct_key:
  "distinct (map f xs) \<Longrightarrow> find (\<lambda>c. f c = k) xs = Some c \<longleftrightarrow> c \<in> set xs \<and> f c = k"
  by (induction xs) (auto simp: image_iff)

text \<open>
  C2. With the contact ids distinct (the primary key), \<^verbatim>\<open>read_contact\<close> returns a contact
  exactly when it is the stored contact with the requested id and its \<^verbatim>\<open>user_id\<close> is the
  id of the current user; when there is no such contact it raises 404; and the session it
  leaves is the session it was given.
\<close>

theorem read_contact_owned:
  assumes "distinct (map id_contact (contacts db))"
  shows "(fst (read_contact contact_id db current_user) = Inr c \<longleftrightarrow>
            c \<in> set (contacts db) \<and> id_contact c = contact_id \<and>
            user_id c = id_user current_user) \<and>
         ((\<nexists>c. c \<in> set (contacts db) \<and> id_contact c = contact_id \<and>
               user_id c = id_user current_user) \<longrightarrow>
            fst (read_contact contact_id db current_user) =
              Inl (HTTPException 404 ''Contact not found'')) \<and>
         snd (read_contact contact_id db current_user) = db"
proof (cases "find (\<lambda>c. id_contact c = contact_id) (contacts db)")
  case None
  then have no: "\<forall>c\<in>set (contacts db). id_contact c \<noteq> contact_id"
    by (simp add: find_None_key)
  have rc: "read_contact contact_id db current_user =
      (Inl (HTTPException 404 ''Contact not found''), db)"
    by (simp add: read_contact_def get_contact_def None)
  from no show ?thesis
    unfolding rc by auto
next
  case (Some d)
  have d: "d \<in> set (contacts db)" "id_contact d = contact_id"
    using find_Some_key[OF Some] by simp_all
  have key: "c' \<in> set (contacts db) \<and> id_contact c' = contact_id \<longleftrightarrow> d = c'" for c'
    using find_distinct_key[OF assms, of contact_id c'] Some by auto
  have rc: "read_contact contact_id db current_user =
      (if user_id d \<noteq> id_user current_user
       then (Inl (HTTPException 404 ''Contact not found''), db) else (Inr d, db))"
    by (simp add: read_contact_def get_contact_def Some)
  have 1: "fst (read_contact contact_id db current_user) = Inr c \<longleftrightarrow>
            c \<in> set (contacts db) \<and> id_contact c = contact_id \<and>
            user_id c = id_user current_user"
  proof (cases "user_id d = id_user current_user")
    case True
    then have "fst (read_contact contact_id db current_user) = Inr c \<longleftrightarrow> d = c"
      by (simp add: rc)
    also have "\<dots> \<longleftrightarrow> (c \<in> set (contacts db) \<and> id_contact c = contact_id) \<and>
        user_id c = id_user current_user"
      unfolding key using True by blast
    finally show ?thesis by (simp only: conj_assoc)
  next
    case False
    then have "fst (read_contact contact_id db current_user) \<noteq> Inr c"
      by (simp add: rc)
    moreover have "\<not> ((c \<in> set (contacts db) \<and> id_contact c = contact_id) \<and>
        user_id c = id_user current_user)"
      unfolding key using False by blast
    ultimately show ?thesis by (simp only: conj_assoc)
  qed
  have 2: "fst (read_contact contact_id db current_user) =
      Inl (HTTPException 404 ''Contact not found'')"
    if "\<nexists>c. c \<in> set (contacts db) \<and> id_contact c = contact_id \<and>
          user_id c = id_user current_user"
  proof -
    from that d have "user_id d \<noteq> id_user current_user" by blast
    then show ?thesis by (simp add: rc)
  qed
  have 3: "snd (read_contact contact_id db current_user) = db"
    by (simp add: rc)
  from 1 2 3 show ?thesis by blast
qed

theorem read_contact_owned_witness:
  "fst (read_contact 1
     \<lparr>users = [],
      contacts = [\<lparr>id_contact = 1, first_name = ''Ann'', last_name = ''Lee'',
                    email = ''ann@example.com'', birthday = 7000, user_id = 4\<rparr>,
                  \<lparr>id_contact = 2, first_name = ''Bob'', last_name = ''Stone'',
                    email = ''bob@example.com'', birthday = 8000, user_id = 5\<rparr>]\<rparr>
     \<lparr>id_user = 4, username = ''carol'', password = Bcrypt 0 ''pw''\<rparr>) =
     Inr \<lparr>id_contact = 1, first_name = ''Ann'', last_name = ''Lee'',
           email = ''ann@example.com'', birthday = 7000, user_id = 4\<rparr> \<and>
   fst (read_contact 2
     \<lparr>users = [],
      contacts = [\<lparr>id_contact = 1, first_name = ''Ann'', last_name = ''Lee'',
                    email = ''ann@example.com'', birthday = 7000, user_id = 4\<rparr>,
                  \<lparr>id_contact = 2, first_name = ''Bob'', last_name = ''Stone'',
                    email = ''bob@example.com'', birthday = 8000, user_id = 5\<rparr>]\<rparr>
     \<lparr>id_user = 4, username = ''carol'', password = Bcrypt 0 ''pw''\<rparr>) =
     Inl (HTTPException 404 ''Contact not found'')"
proof -
  let ?ann = "\<lparr>id_contact = 1, first_name = ''Ann'', last_name = ''Lee'',
                email = ''ann@example.com'', birthday = 7000, user_id = 4\<rparr>"
  let ?bob = "\<lparr>id_contact = 2, first_name = ''Bob'', last_name = ''Stone'',
                email = ''bob@example.com'', birthday = 8000, user_id = 5\<rparr>"
  let ?db = "\<lparr>users = [], contacts = [?ann, ?bob]\<rparr>"
  let ?carol = "\<lparr>id_user = 4, username = ''carol'', password = Bcrypt 0 ''pw''\<rparr>"
  have d: "distinct (map id_contact (contacts ?db))"
    by simp
  have "?ann \<in> set (contacts ?db) \<and> id_contact ?ann = 1 \<and> user_id ?ann = id_user ?carol"
    by simp
  with read_contact_owned[OF d, of 1 ?carol ?ann]
  have 1: "fst (read_contact 1 ?db ?carol) = Inr ?ann"
    by blast
  have "\<nexists>c. c \<in> set (contacts ?db) \<and> id_contact c = 2 \<and> user_id c = id_user ?carol"
    by auto
  with read_contact_owned[OF d, of 2 ?carol ?bob]
  have 2: "fst (read_contact 2 ?db ?carol) = Inl (HTTPException 404 ''Contact not found'')"
    by blast
  from 1 2 show ?thesis by (rule conjI)
qed

text \<open>
  C3. \<^verbatim>\<open>delete_contact\<close> takes no current user. When a contact with the id is stored it
  returns one and leaves the store without the contacts of that id, whoever owns them;
  when none is stored it raises 404 and leaves the store as it was. Either way no contact
  with the id remains and the users are untouched.
\<close>

theorem delete_contact_by_id:
  "((\<exists>c\<in>set (contacts db). id_contact c = contact_id) \<longrightarrow>
      (\<exists>c\<in>set (contacts db). id_contact c = contact_id \<and>
         delete_contact contact_id db =
           (Inr c, db\<lparr>contacts := filter (\<lambda>c. id_contact c \<noteq> contact_id) (contacts db)\<rparr>))) \<and>
   ((\<forall>c\<in>set (contacts db). id_contact c \<noteq> contact_id) \<longrightarrow>
      delete_contact contact_id db = (Inl (HTTPException 404 ''Contact not found''), db)) \<and>
   (\<forall>c\<in>set (contacts (snd (delete_contact contact_id db))). id_contact c \<noteq> contact_id) \<and>
   users (snd (delete_contact contact_id db)) = users db"
proof (cases "find (\<lambda>c. id_contact c = contact_id) (contacts db)")
  case None
  then have "\<forall>c\<in>set (contacts db). id_contact c \<noteq> contact_id"
    by (simp add: find_None_key)
  with None show ?thesis
    by (simp add: delete_contact_def crud_delete_contact_def)
next
  case (Some c)
  from find_Some_key[OF Some] have "c \<in> set (contacts db)" "id_contact c = contact_id"
    by simp_all
  with Some show ?thesis
    by (auto simp: delete_contact_def crud_delete_contact_def)
qed

theorem delete_contact_by_id_witness:
  "delete_contact 1
     \<lparr>users = [],
      contacts = [\<lparr>id_contact = 1, first_name = ''Ann'', last_name = ''Lee'',
                    email = ''ann@example.com'', birthday = 7000, user_id = 4\<rparr>]\<rparr> =
     (Inr \<lparr>id_contact = 1, first_name = ''Ann'', last_name = ''Lee'',
            email = ''ann@example.com'', birthday = 7000, user_id = 4\<rparr>,
      \<lparr>users = [], contacts = []\<rparr>) \<and>
   delete_contact 9
     \<lparr>users = [],
      contacts = [\<lparr>id_contact = 1, first_name = ''Ann'', last_name = ''Lee'',
                    email = ''ann@example.com'', birthday = 7000, user_id = 4\<rparr>]\<rparr> =
     (Inl (HTTPException 404 ''Contact not found''),
      \<lparr>users = [],
       contacts = [\<lparr>id_contact = 1, first_name = ''Ann'', last_name = ''Lee'',
                     email = ''ann@example.com'', birthday = 7000, user_id = 4\<rparr>]\<rparr>)"
proof -
  let ?ann = "\<lparr>id_contact = 1, first_name = ''Ann'', last_name = ''Lee'',
                email = ''ann@example.com'', birthday = 7000, user_id = 4\<rparr>"
  let ?db = "\<lparr>users = [], contacts = [?ann]\<rparr>"
  have "\<exists>c\<in>set (contacts ?db). id_contact c = 1"
    by simp
  with delete_contact_by_id[of ?db 1]
  have "\<exists>c\<in>set (contacts ?db). id_contact c = 1 \<and>
         delete_contact 1 ?db =
           (Inr c, ?db\<lparr>contacts := filter (\<lambda>c. id_contact c \<noteq> 1) (contacts ?db)\<rparr>)"
    by blast
  then have 1: "delete_contact 1 ?db = (Inr ?ann, \<lparr>users = [], contacts = []\<rparr>)"
    by simp
  have "\<forall>c\<in>set (contacts ?db). id_contact c \<noteq> 9"
    by simp
  with delete_contact_by_id[of ?db 9]
  have 2: "delete_contact 9 ?db = (Inl (HTTPException 404 ''Contact not found''), ?db)"
    by blast
  from 1 2 show ?thesis by (rule conjI)
qed

section \<open>Registration\<close>







section \<open>Current user\<close>

text \<open>
  \<^verbatim>\<open>get_current_user\<close> raises exactly when the token's signature does not verify, the
  token is expired, or no stored user has the token's subject as username; what it raises
  is the 401 exception with the header \<^verbatim>\<open>WWW-Authenticate: Bearer\<close>; and a token that is
  tampered with or expired resolves to no user, whatever the store.
\<close>

lemma get_current_user_raises_iff:
  "((\<exists>e. get_current_user key now t db = Inl e) \<longleftrightarrow>
      \<not> signature_valid key t \<or> expired now t \<or>
      (\<forall>u\<in>set (users db). username u \<noteq> token_sub t)) \<and>
   (get_current_user key now t db = Inl e \<longrightarrow>
      e = credentials_exception \<and> status_code e = 401 \<and>
      headers e = [(''WWW-Authenticate'', ''Bearer'')]) \<and>
   (\<not> signature_valid key t \<or> expired now t \<longrightarrow>
      get_current_user key now t db = Inl credentials_exception)"
proof -
  have bad: "get_current_user key now t db = Inl credentials_exception"
    if "\<not> signature_valid key t \<or> expired now t"
    using that by (auto simp: get_current_user_def verify_token_def)
  have good: "get_current_user key now t db =
      (case find (\<lambda>u. username u = token_sub t) (users db) of
         None \<Rightarrow> Inl credentials_exception | Some u \<Rightarrow> Inr u)"
    if "signature_valid key t" "\<not> expired now t"
    using that by (simp add: get_current_user_def verify_token_def)
  have only: "e = credentials_exception" if "get_current_user key now t db = Inl e"
    using that
    by (auto simp: get_current_user_def verify_token_def split: if_splits option.splits)
  have iff: "(\<exists>e. get_current_user key now t db = Inl e) \<longleftrightarrow>
      \<not> signature_valid key t \<or> expired now t \<or>
      (\<forall>u\<in>set (users db). username u \<noteq> token_sub t)"
  proof (cases "signature_valid key t \<and> \<not> expired now t")
    case True
    then show ?thesis
      using find_None_key[of username "token_sub t" "users db"]
      by (auto simp: good split: option.splits)
  next
    case False
    then show ?thesis using bad by auto
  qed
  have hdr: "status_code credentials_exception = 401"
    "headers credentials_exception = [(''WWW-Authenticate'', ''Bearer'')]"
    by (simp_all add: credentials_exception_def)
  from bad only iff hdr show ?thesis by blast
qed

text \<open>
  C7. The subject of a token is a user id, as \<^verbatim>\<open>login_user\<close> writes it. A token that is
  validly signed, not expired, and whose subject is the id of the stored user 1 is
  answered 401, because no stored user has \<^verbatim>\<open>1\<close> as username; and with a second user
  whose username is \<^verbatim>\<open>1\<close> the same token resolves to that user, whose id is 2.
\<close>

theorem subject_id_not_resolved:
  "signature_valid 1
     \<lparr>token_sub = ''1'', token_exp = 1800000000, token_sig = Sign 1 ''1'' 1800000000\<rparr> \<and>
   \<not> expired 0
     \<lparr>token_sub = ''1'', token_exp = 1800000000, token_sig = Sign 1 ''1'' 1800000000\<rparr> \<and>
   str (id_user \<lparr>id_user = 1, username = ''alice'', password = Bcrypt 0 ''secret''\<rparr>) = ''1'' \<and>
   get_current_user 1 0
     \<lparr>token_sub = ''1'', token_exp = 1800000000, token_sig = Sign 1 ''1'' 1800000000\<rparr>
     \<lparr>users = [\<lparr>id_user = 1, username = ''alice'', password = Bcrypt 0 ''secret''\<rparr>],
      contacts = []\<rparr> = Inl credentials_exception \<and>
   get_current_user 1 0
     \<lparr>token_sub = ''1'', token_exp = 1800000000, token_sig = Sign 1 ''1'' 1800000000\<rparr>
     \<lparr>users = [\<lparr>id_user = 1, username = ''alice'', password = Bcrypt 0 ''secret''\<rparr>,
               \<lparr>id_user = 2, username = ''1'', password = Bcrypt 0 ''hunter''\<rparr>],
      contacts = []\<rparr> =
     Inr \<lparr>id_user = 2, username = ''1'', password = Bcrypt 0 ''hunter''\<rparr>"
  by code_simp

section \<open>Search\<close>

text \<open>
  C5. \<^verbatim>\<open>search_contacts\<close> asks the session for \<^verbatim>\<open>Contact\<close>, which in \<^verbatim>\<open>main.py\<close> is the
  schema and not the mapped entity: the query raises, whatever the parameters, the store
  and the database's \<^verbatim>\<open>ILIKE\<close>, and the handler returns no contact and no 404. A search
  for \<^verbatim>\<open>ob\<close> over a store that holds Bob returns Bob as the specification words it.
\<close>

theorem search_contacts_raises:
  "search_contacts ilike name surname email' db = Inl (Unhandled ArgumentError) \<and>
   search_spec (Some ''ob'') None None
     \<lparr>users = [],
      contacts = [\<lparr>id_contact = 2, first_name = ''Bob'', last_name = ''Stone'',
                    email = ''bob@example.com'', birthday = 8000, user_id = 5\<rparr>]\<rparr> =
     Inr [\<lparr>id_contact = 2, first_name = ''Bob'', last_name = ''Stone'',
            email = ''bob@example.com'', birthday = 8000, user_id = 5\<rparr>]"
proof
  show "search_contacts ilike name surname email' db = Inl (Unhandled ArgumentError)"
    by (simp add: search_contacts_def db_query_def Contact_def)
  show "search_spec (Some ''ob'') None None
     \<lparr>users = [],
      contacts = [\<lparr>id_contact = 2, first_name = ''Bob'', last_name = ''Stone'',
                    email = ''bob@example.com'', birthday = 8000, user_id = 5\<rparr>]\<rparr> =
     Inr [\<lparr>id_contact = 2, first_name = ''Bob'', last_name = ''Stone'',
            email = ''bob@example.com'', birthday = 8000, user_id = 5\<rparr>]"
    by code_simp
qed

section \<open>Upcoming birthdays\<close>

text \<open>
  C6. \<^verbatim>\<open>get_upcoming_birthdays\<close> asks the session for the same \<^verbatim>\<open>Contact\<close>: the query
  raises, whatever the clock, the store and the comparison of the database, and the
  handler returns no contact and no 404. At noon of day 20000 a contact whose birthday is
  day 20007 is returned as the specification words it.
\<close>

theorem get_upcoming_birthdays_raises:
  "get_upcoming_birthdays between datetime_today db = Inl (Unhandled ArgumentError) \<and>
   upcoming_spec (20000 * 86400000000 + 43200000000)
     \<lparr>users = [],
      contacts = [\<lparr>id_contact = 1, first_name = ''Ann'', last_name = ''Lee'',
                    email = ''ann@example.com'', birthday = 20007, user_id = 4\<rparr>]\<rparr> =
     Inr [\<lparr>id_contact = 1, first_name = ''Ann'', last_name = ''Lee'',
            email = ''ann@example.com'', birthday = 20007, user_id = 4\<rparr>]"
proof
  show "get_upcoming_birthdays between datetime_today db = Inl (Unhandled ArgumentError)"
    by (simp add: get_upcoming_birthdays_def db_query_def Contact_def)
  show "upcoming_spec (20000 * 86400000000 + 43200000000)
     \<lparr>users = [],
      contacts = [\<lparr>id_contact = 1, first_name = ''Ann'', last_name = ''Lee'',
                    email = ''ann@example.com'', birthday = 20007, user_id = 4\<rparr>]\<rparr> =
     Inr [\<lparr>id_contact = 1, first_name = ''Ann'', last_name = ''Lee'',
            email = ''ann@example.com'', birthday = 20007, user_id = 4\<rparr>]"
    by (simp add: upcoming_spec_def date_of_def)
qed

section \<open>Login\<close>

lemma login_user_Inr:
  assumes "login_user key now lifetime n pw db = Inr r"
  shows "\<exists>u. find (\<lambda>u. username u = n) (users db) = Some u \<and>
           verify_password pw (password u) \<and>
           access_token r =
             create_access_token key now (str (id_user u)) (timedelta_minutes 30)"
  using assms by (auto simp: login_user_def split: option.splits if_splits)

lemma get_current_user_Inr:
  assumes "get_current_user key now t db = Inr u"
  shows "u \<in> set (users db) \<and> username u = token_sub t"
proof -
  from assms have "find (\<lambda>u. username u = token_sub t) (users db) = Some u"
    by (auto simp: get_current_user_def verify_token_def split: if_splits option.splits)
  from find_Some_key[OF this] show ?thesis .
qed

text \<open>
  The token of a login resolves to a user only if that user's username is the decimal
  string of the id of the user who logged in.
\<close>

lemma login_then_current_user:
  assumes "login_user key now lifetime n pw db = Inr r"
    and "get_current_user key now' (access_token r) db = Inr v"
  shows "\<exists>u. find (\<lambda>u. username u = n) (users db) = Some u \<and> username v = str (id_user u)"
proof -
  from login_user_Inr[OF assms(1)] obtain u where
    u: "find (\<lambda>u. username u = n) (users db) = Some u"
    and t: "access_token r =
      create_access_token key now (str (id_user u)) (timedelta_minutes 30)"
    by blast
  from get_current_user_Inr[OF assms(2)] have "username v = token_sub (access_token r)"
    by simp
  with t have "username v = str (id_user u)"
    by (simp add: create_access_token_def)
  with u show ?thesis by blast
qed

text \<open>
  C1. User 1, \<^verbatim>\<open>alice\<close>, logs in with her password and receives an access token whose
  subject is \<^verbatim>\<open>1\<close>; presented at once, the token is looked up as a username, no user is
  called \<^verbatim>\<open>1\<close>, and the lookup raises 401 instead of resolving to alice.
\<close>

theorem login_token_not_resolved:
  "login_user 1 0 604800000000 ''alice'' ''secret''
     \<lparr>users = [\<lparr>id_user = 1, username = ''alice'', password = Bcrypt 0 ''secret''\<rparr>],
      contacts = []\<rparr> =
     Inr \<lparr>access_token = \<lparr>token_sub = ''1'', token_exp = 1800000000,
                            token_sig = Sign 1 ''1'' 1800000000\<rparr>,
          refresh_token = \<lparr>token_sub = ''1'', token_exp = 604800000000,
                             token_sig = Sign 1 ''1'' 604800000000\<rparr>,
          token_type = ''bearer''\<rparr> \<and>
   get_current_user 1 0
     \<lparr>token_sub = ''1'', token_exp = 1800000000, token_sig = Sign 1 ''1'' 1800000000\<rparr>
     \<lparr>users = [\<lparr>id_user = 1, username = ''alice'', password = Bcrypt 0 ''secret''\<rparr>],
      contacts = []\<rparr> = Inl credentials_exception"
  by code_simp

end
